theory Spec2Isabelle
  imports Main "HOL-Library.Log_Nat" "HOL-Library.Sublist" "HOL-Library.Char_ord"
    "HOL-Library.List_Lexorder"
begin

section \<open>JavaScript number arithmetic used by the quiz grader\<close>

text \<open>
  JavaScript numbers are IEEE-754 binary64 values.  The grader divides and multiplies
  such numbers and then calls \<open>Math.round\<close>, so the two roundings of the quotient and
  of the product are part of what the code computes.  A binary64 value is kept as the
  rational it denotes.  The sums of the points are integers far below \<open>2^53\<close>
  (points are validated as positive integers and stored in a 32-bit column), so the
  additions are exact; overflow to infinity and subnormal values cannot arise from a
  quotient of two such sums and are not modelled.
\<close>

text \<open>Round to the nearest integer, a tie going to the even neighbour (the rounding
  of every basic binary64 operation).\<close>

definition round_even :: "rat \<Rightarrow> int" where
  "round_even y =
     (let f = \<lfloor>y\<rfloor>; r = y - of_int f in
      if r < 1 / 2 then f
      else if 1 / 2 < r then f + 1
      else if even f then f else f + 1)"

text \<open>The binary scaling \<open>k\<close> that brings a positive rational into the range of a
  53-bit significand: \<open>2^52 \<le> x * 2^k < 2^53\<close>.\<close>

definition scale53 :: "rat \<Rightarrow> int" where
  "scale53 x =
     (let (p, q) = quotient_of x; k0 = 53 - (bitlen p - bitlen q) in
      if x * 2 powi k0 < 2 ^ 53 then k0 else k0 - 1)"

text \<open>The binary64 value nearest to a rational (round to nearest, ties to even).\<close>

definition fl :: "rat \<Rightarrow> rat" where
  "fl x =
     (if x = 0 then 0
      else sgn x * of_int (round_even (\<bar>x\<bar> * 2 powi scale53 \<bar>x\<bar>)) * 2 powi (- scale53 \<bar>x\<bar>))"

text \<open>\<open>a / b\<close> and \<open>a * b\<close> on numbers.\<close>

definition js_div :: "rat \<Rightarrow> rat \<Rightarrow> rat" where
  "js_div a b = fl (a / b)"

definition js_mul :: "rat \<Rightarrow> rat \<Rightarrow> rat" where
  "js_mul a b = fl (a * b)"

text \<open>\<open>Math.round\<close>: the nearest integer, a tie going towards plus infinity.\<close>

definition Math_round :: "rat \<Rightarrow> int" where
  "Math_round x = \<lfloor>x + 1 / 2\<rfloor>"

text \<open>Round-half-up of the exact quotient \<open>100 * e / t\<close>, the score of the
  specification, for comparison with what the grader computes.\<close>

definition round_half_up_percent :: "nat \<Rightarrow> nat \<Rightarrow> int" where
  "round_half_up_percent e t = \<lfloor>(100 * of_nat e / of_nat t :: rat) + 1 / 2\<rfloor>"


section \<open>Quiz data\<close>

text \<open>
  Rows as the quiz service reads and writes them (\<open>services/quiz.service.ts\<close>,
  \<open>types/quiz.types.ts\<close>).  Identifiers are UUID strings.  Option indices are
  integers: the service itself tests them against \<open>0\<close>.  Points are natural numbers:
  the request schemas admit positive integers only.
\<close>

record QuizQuestion =
  qq_id :: string
  qq_quizId :: string
  question :: string
  options :: "string list"
  correctOptionIndex :: int
  explanation :: "string option"
  points :: nat

record Quiz =
  quiz_id :: string
  quiz_title :: string
  quiz_moduleId :: string
  passingScore :: int
  isDeleted :: bool

text \<open>A quiz loaded with \<open>include: { questions }\<close>.\<close>

record QuizWithQuestions = Quiz +
  questions :: "QuizQuestion list"

text \<open>One entry of the \<open>answers\<close> array of a submission.\<close>

record AnswerInput =
  questionId :: string
  selectedOptionIndex :: int

record QuizAnswer =
  qa_questionId :: string
  qa_selectedOptionIndex :: int
  isCorrect :: bool

record QuizAttempt =
  att_userId :: string
  att_quizId :: string
  score :: int
  passed :: bool
  answers :: "QuizAnswer list"


section \<open>Grading: \<open>QuizService.calculateQuizScore\<close>\<close>

text \<open>The body of the \<open>for (const question of quiz.questions)\<close> loop, with the two
  accumulators \<open>totalPoints\<close> and \<open>earnedPoints\<close>.\<close>

fun score_loop :: "QuizQuestion list \<Rightarrow> AnswerInput list \<Rightarrow> nat \<Rightarrow> nat \<Rightarrow> nat \<times> nat" where
  "score_loop [] as totalPoints earnedPoints = (totalPoints, earnedPoints)"
| "score_loop (q # qs) as totalPoints earnedPoints =
     score_loop qs as (totalPoints + points q)
       (case find (\<lambda>a. questionId a = qq_id q) as of
          Some answer \<Rightarrow>
            if selectedOptionIndex answer = correctOptionIndex q
            then earnedPoints + points q else earnedPoints
        | None \<Rightarrow> earnedPoints)"

definition calculateQuizScore :: "QuizWithQuestions \<Rightarrow> AnswerInput list \<Rightarrow> int" where
  "calculateQuizScore quiz as =
     (case score_loop (questions quiz) as 0 0 of
        (totalPoints, earnedPoints) \<Rightarrow>
          if totalPoints > 0
          then Math_round (js_mul (js_div (of_nat earnedPoints) (of_nat totalPoints)) 100)
          else 0)"

text \<open>A question counts as correctly answered when the first answer carrying its id
  selects its correct option.\<close>

definition answered_correctly :: "AnswerInput list \<Rightarrow> QuizQuestion \<Rightarrow> bool" where
  "answered_correctly as q =
     (case find (\<lambda>a. questionId a = qq_id q) as of
        Some answer \<Rightarrow> selectedOptionIndex answer = correctOptionIndex q
      | None \<Rightarrow> False)"

definition totalPoints_of :: "QuizWithQuestions \<Rightarrow> nat" where
  "totalPoints_of quiz = sum_list (map points (questions quiz))"

definition earnedPoints_of :: "QuizWithQuestions \<Rightarrow> AnswerInput list \<Rightarrow> nat" where
  "earnedPoints_of quiz as = sum_list (map points (filter (answered_correctly as) (questions quiz)))"



section \<open>Errors and the quiz tables\<close>

text \<open>
  What a handler can throw.  \<open>ApiError\<close> is the class of
  \<open>middlewares/error.middleware.ts\<close> with its message, status code and \<open>errors\<close>
  payload; \<open>OtherApiError\<close> is the class of the same name and shape that
  \<open>middleware/error.middleware.ts\<close> declares, which is a different class to
  \<open>instanceof\<close>; \<open>PrismaClientKnownRequestError\<close> carries its code, message and
  \<open>meta.target\<close>; \<open>Error\<close> is any other error with its \<open>name\<close> and message.
\<close>

datatype payload =
  Null
  | Field "string option"
  | ErrorObject string string
  | Details "(string \<times> string) list"

datatype JsError =
  ApiError string int payload
  | OtherApiError string int payload
  | PrismaClientKnownRequestError string string "string option"
  | Error string string

record Db =
  quizzes :: "Quiz list"
  quizQuestions :: "QuizQuestion list"
  quizAttempts :: "QuizAttempt list"

text \<open>\<open>getQuizById(id, includeQuestions)\<close>: the first quiz with this id that is not
  soft-deleted, with its questions in ascending order of id when they are asked for.\<close>

definition getQuizById :: "Db \<Rightarrow> string \<Rightarrow> bool \<Rightarrow> QuizWithQuestions option" where
  "getQuizById db ident includeQuestions =
     (case find (\<lambda>q. quiz_id q = ident \<and> \<not> isDeleted q) (quizzes db) of
        None \<Rightarrow> None
      | Some q \<Rightarrow>
          Some \<lparr>quiz_id = quiz_id q, quiz_title = quiz_title q, quiz_moduleId = quiz_moduleId q,
                passingScore = passingScore q, isDeleted = isDeleted q,
                questions =
                  (if includeQuestions
                   then sort_key qq_id (filter (\<lambda>x. qq_quizId x = ident) (quizQuestions db))
                   else [])\<rparr>)"

text \<open>\<open>Array.prototype.join\<close> on strings.\<close>

fun join :: "string \<Rightarrow> string list \<Rightarrow> string" where
  "join sep [] = []"
| "join sep [x] = x"
| "join sep (x # y # ys) = x @ sep @ join sep (y # ys)"


section \<open>\<open>QuizService.submitQuizAttempt\<close>\<close>

text \<open>The answer rows of the nested \<open>create\<close>.  Reading \<open>correctOptionIndex\<close> of a
  question that \<open>find\<close> did not return throws a \<open>TypeError\<close>; that is the \<open>None\<close>
  result here.\<close>

fun answer_rows :: "QuizQuestion list \<Rightarrow> AnswerInput list \<Rightarrow> QuizAnswer list option" where
  "answer_rows qs [] = Some []"
| "answer_rows qs (answer # as) =
     (case find (\<lambda>q. qq_id q = questionId answer) qs of
        None \<Rightarrow> None
      | Some qn \<Rightarrow>
          (case answer_rows qs as of
             None \<Rightarrow> None
           | Some rows \<Rightarrow>
               Some (\<lparr>qa_questionId = questionId answer,
                      qa_selectedOptionIndex = selectedOptionIndex answer,
                      isCorrect = (correctOptionIndex qn = selectedOptionIndex answer)\<rparr> # rows)))"

text \<open>
  The result is the thrown error or the created attempt, together with the tables after
  the call.  The insert of the attempt with its answer rows is taken to succeed: the
  schema file declares no table for attempts and so no constraint on them.  The lookup
  of the module progress after a passed attempt only reads and is left out.
\<close>

definition submitQuizAttempt ::
  "Db \<Rightarrow> string \<Rightarrow> string \<Rightarrow> AnswerInput list \<Rightarrow> (JsError + QuizAttempt) \<times> Db" where
  "submitQuizAttempt db quizId userId as =
     (case getQuizById db quizId True of
        None \<Rightarrow> (Inl (ApiError ''Quiz not found'' 404 Null), db)
      | Some quiz \<Rightarrow>
          let questionIds = map qq_id (questions quiz);
              answeredQuestionIds = map questionId as
          in if length questionIds \<noteq> length answeredQuestionIds
             then (Inl (ApiError ''All questions must be answered'' 400 Null), db)
             else
               let invalidQuestionIds = filter (\<lambda>i. i \<notin> set questionIds) answeredQuestionIds
               in if length invalidQuestionIds > 0
                  then (Inl (ApiError (''Invalid question IDs: '' @ join '', '' invalidQuestionIds)
                               400 Null), db)
                  else
                    let score' = calculateQuizScore quiz as;
                        passed' = (score' \<ge> passingScore quiz)
                    in (case answer_rows (questions quiz) as of
                          None \<Rightarrow>
                            (Inl (Error ''TypeError''
                                    ''Cannot read properties of undefined''), db)
                        | Some rows \<Rightarrow>
                            let quizAttempt =
                                  \<lparr>att_userId = userId, att_quizId = quizId, score = score',
                                   passed = passed', answers = rows\<rparr>
                            in (Inr quizAttempt,
                                db\<lparr>quizAttempts := quizAttempts db @ [quizAttempt]\<rparr>)))"


section \<open>Creating and updating quiz questions\<close>

record CreateQuestionData =
  c_question :: string
  c_options :: "string list"
  c_correctOptionIndex :: int
  c_explanation :: "string option"
  c_points :: nat

text \<open>Every field of an update may be absent (\<open>undefined\<close>).\<close>

record UpdateQuestionData =
  u_question :: "string option"
  u_options :: "string list option"
  u_correctOptionIndex :: "int option"
  u_explanation :: "string option"
  u_points :: "nat option"

text \<open>
  Each of the three operations awaits a read, checks what it has read, and then awaits
  its write.  The service opens no transaction around the two halves, so the write of
  another request can reach the table between them.  The halves are therefore functions
  of their own; the operation as one request runs them on the same tables.
\<close>

text \<open>The first half of \<open>createQuizQuestion\<close>: the quiz must exist and the index must
  lie within the submitted options.  \<open>Some err\<close> is the error thrown.\<close>

definition createQuizQuestion_check :: "Db \<Rightarrow> string \<Rightarrow> CreateQuestionData \<Rightarrow> JsError option" where
  "createQuizQuestion_check db quizId data =
     (case getQuizById db quizId False of
        None \<Rightarrow> Some (ApiError ''Quiz not found'' 404 Null)
      | Some quiz \<Rightarrow>
          if c_correctOptionIndex data < 0
             \<or> c_correctOptionIndex data \<ge> int (length (c_options data))
          then Some (ApiError
                  ''Invalid correctOptionIndex, must be a valid index in the options array''
                  400 Null)
          else None)"

text \<open>\<open>prisma.quizQuestion.create\<close>.  The row identifier is generated by the database;
  \<open>newId\<close> stands for it.\<close>

definition quizQuestion_create ::
  "Db \<Rightarrow> string \<Rightarrow> string \<Rightarrow> CreateQuestionData \<Rightarrow> (JsError + QuizQuestion) \<times> Db" where
  "quizQuestion_create db newId quizId data =
     (let row = \<lparr>qq_id = newId, qq_quizId = quizId, question = c_question data,
                 options = c_options data,
                 correctOptionIndex = c_correctOptionIndex data,
                 explanation = c_explanation data, points = c_points data\<rparr>
      in (Inr row, db\<lparr>quizQuestions := quizQuestions db @ [row]\<rparr>))"

definition createQuizQuestion ::
  "Db \<Rightarrow> string \<Rightarrow> string \<Rightarrow> CreateQuestionData \<Rightarrow> (JsError + QuizQuestion) \<times> Db" where
  "createQuizQuestion db newId quizId data =
     (case createQuizQuestion_check db quizId data of
        Some err \<Rightarrow> (Inl err, db)
      | None \<Rightarrow> quizQuestion_create db newId quizId data)"

text \<open>The columns that \<open>prisma.quizQuestion.update\<close> sets: the fields present in
  \<open>data\<close> replace the stored ones, the others stay.\<close>

definition apply_update :: "QuizQuestion \<Rightarrow> UpdateQuestionData \<Rightarrow> QuizQuestion" where
  "apply_update q data =
     q\<lparr>question := (case u_question data of None \<Rightarrow> question q | Some v \<Rightarrow> v),
       options := (case u_options data of None \<Rightarrow> options q | Some v \<Rightarrow> v),
       correctOptionIndex :=
         (case u_correctOptionIndex data of None \<Rightarrow> correctOptionIndex q | Some v \<Rightarrow> v),
       explanation := (case u_explanation data of None \<Rightarrow> explanation q | Some v \<Rightarrow> Some v),
       points := (case u_points data of None \<Rightarrow> points q | Some v \<Rightarrow> v)\<rparr>"

text \<open>The three-way check of \<open>updateQuizQuestion\<close> on the row that \<open>findUnique\<close>
  returned; \<open>Some msg\<close> is the message of the 400 error it throws.\<close>

definition update_check :: "QuizQuestion \<Rightarrow> UpdateQuestionData \<Rightarrow> string option" where
  "update_check q data =
     (case (u_options data, u_correctOptionIndex data) of
        (Some opts, Some i) \<Rightarrow>
          if i < 0 \<or> i \<ge> int (length opts)
          then Some ''Invalid correctOptionIndex, must be a valid index in the options array''
          else None
      | (Some opts, None) \<Rightarrow>
          if correctOptionIndex q \<ge> int (length opts)
          then Some ''Updating options would make existing correctOptionIndex invalid''
          else None
      | (None, Some i) \<Rightarrow>
          if i < 0 \<or> i \<ge> int (length (options q))
          then Some ''Invalid correctOptionIndex for existing options''
          else None
      | (None, None) \<Rightarrow> None)"

text \<open>The first half of \<open>updateQuizQuestion\<close>: \<open>findUnique\<close> and the check of the row
  it returned.\<close>

definition updateQuizQuestion_check :: "Db \<Rightarrow> string \<Rightarrow> UpdateQuestionData \<Rightarrow> JsError option" where
  "updateQuizQuestion_check db ident data =
     (case find (\<lambda>q. qq_id q = ident) (quizQuestions db) of
        None \<Rightarrow> Some (ApiError ''Question not found'' 404 Null)
      | Some q \<Rightarrow>
          (case update_check q data of
             Some msg \<Rightarrow> Some (ApiError msg 400 Null)
           | None \<Rightarrow> None))"

text \<open>\<open>where: { id }\<close> addresses one row: the first one with this id is replaced.\<close>

fun replace_first :: "('a \<Rightarrow> bool) \<Rightarrow> 'a \<Rightarrow> 'a list \<Rightarrow> 'a list" where
  "replace_first P y [] = []"
| "replace_first P y (x # xs) = (if P x then y # xs else x # replace_first P y xs)"

text \<open>The second half: \<open>prisma.quizQuestion.update({ where: { id }, data })\<close> sets the
  submitted columns of the row as it is stored when the write arrives, and fails with
  \<open>P2025\<close> when the row is gone.\<close>

definition quizQuestion_update ::
  "Db \<Rightarrow> string \<Rightarrow> UpdateQuestionData \<Rightarrow> (JsError + QuizQuestion) \<times> Db" where
  "quizQuestion_update db ident data =
     (case find (\<lambda>q. qq_id q = ident) (quizQuestions db) of
        None \<Rightarrow>
          (Inl (PrismaClientKnownRequestError ''P2025'' ''Record to update not found'' None), db)
      | Some q \<Rightarrow>
          (Inr (apply_update q data),
           db\<lparr>quizQuestions :=
                replace_first (\<lambda>x. qq_id x = ident) (apply_update q data)
                  (quizQuestions db)\<rparr>))"

definition updateQuizQuestion ::
  "Db \<Rightarrow> string \<Rightarrow> UpdateQuestionData \<Rightarrow> (JsError + QuizQuestion) \<times> Db" where
  "updateQuizQuestion db ident data =
     (case updateQuizQuestion_check db ident data of
        Some err \<Rightarrow> (Inl err, db)
      | None \<Rightarrow> quizQuestion_update db ident data)"

text \<open>\<open>deleteQuizQuestion\<close>: \<open>findUnique\<close>, then \<open>prisma.quizQuestion.delete\<close>.\<close>

definition deleteQuizQuestion_check :: "Db \<Rightarrow> string \<Rightarrow> JsError option" where
  "deleteQuizQuestion_check db ident =
     (case find (\<lambda>q. qq_id q = ident) (quizQuestions db) of
        None \<Rightarrow> Some (ApiError ''Question not found'' 404 Null)
      | Some q \<Rightarrow> None)"

definition quizQuestion_delete :: "Db \<Rightarrow> string \<Rightarrow> (JsError + QuizQuestion) \<times> Db" where
  "quizQuestion_delete db ident =
     (case find (\<lambda>q. qq_id q = ident) (quizQuestions db) of
        None \<Rightarrow>
          (Inl (PrismaClientKnownRequestError ''P2025'' ''Record to delete does not exist'' None),
           db)
      | Some q \<Rightarrow>
          (Inr q, db\<lparr>quizQuestions := filter (\<lambda>x. qq_id x \<noteq> ident) (quizQuestions db)\<rparr>))"

definition deleteQuizQuestion :: "Db \<Rightarrow> string \<Rightarrow> (JsError + QuizQuestion) \<times> Db" where
  "deleteQuizQuestion db ident =
     (case deleteQuizQuestion_check db ident of
        Some err \<Rightarrow> (Inl err, db)
      | None \<Rightarrow> quizQuestion_delete db ident)"

text \<open>The bound a stored question is to satisfy.\<close>

definition index_in_bounds :: "QuizQuestion \<Rightarrow> bool" where
  "index_in_bounds q \<longleftrightarrow> 0 \<le> correctOptionIndex q \<and> correctOptionIndex q < int (length (options q))"

text \<open>A request whose first half has passed and whose write has not reached the table
  yet.\<close>

datatype PendingWrite =
  CreateWrite string string CreateQuestionData
  | UpdateWrite string UpdateQuestionData
  | DeleteWrite string

fun passes_check :: "Db \<Rightarrow> PendingWrite \<Rightarrow> bool" where
  "passes_check db (CreateWrite newId quizId data) =
     (createQuizQuestion_check db quizId data = None)"
| "passes_check db (UpdateWrite ident data) = (updateQuizQuestion_check db ident data = None)"
| "passes_check db (DeleteWrite ident) = (deleteQuizQuestion_check db ident = None)"

fun apply_write :: "Db \<Rightarrow> PendingWrite \<Rightarrow> Db" where
  "apply_write db (CreateWrite newId quizId data) = snd (quizQuestion_create db newId quizId data)"
| "apply_write db (UpdateWrite ident data) = snd (quizQuestion_update db ident data)"
| "apply_write db (DeleteWrite ident) = snd (quizQuestion_delete db ident)"

text \<open>
  The states the question table can be in, together with the writes that are under way.
  The table starts empty.  A request passes its check against the tables as they are
  and joins the pending writes; any pending write may reach the table next, in whatever
  order the requests are served; the quiz and attempt tables may change in any way in
  between.
\<close>

inductive reachable :: "Db \<Rightarrow> PendingWrite list \<Rightarrow> bool" where
  init: "quizQuestions db = [] \<Longrightarrow> reachable db []"
| checked: "reachable db ws \<Longrightarrow> passes_check db w \<Longrightarrow> reachable db (w # ws)"
| written: "reachable db ws \<Longrightarrow> w \<in> set ws \<Longrightarrow> reachable (apply_write db w) (remove1 w ws)"
| other: "reachable db ws \<Longrightarrow> reachable (db\<lparr>quizzes := qs, quizAttempts := ats\<rparr>) ws"


section \<open>The error middleware\<close>









section \<open>Handlers that raise errors\<close>

text \<open>
  \<open>UserService.createUser\<close> and \<open>AwsService.deleteFile\<close>, as far as the errors they
  raise are concerned.  A user row is kept with the columns \<open>createUser\<close> is given
  besides the optional profile fields; \<open>email\<close> is \<open>@unique\<close> in the schema, so the
  database refuses a second row with the same email, soft-deleted rows included, with
  \<open>P2002\<close>.  The password hash and the outcome of the call to the object store come
  from outside and are parameters.
\<close>

datatype UserRole = ADMIN | USER











section \<open>The enrollment table\<close>

text \<open>
  The model \<open>UserCourseEnrollment\<close> of the Prisma schema.  The enrolled course is the
  row of \<open>Module\<close> that \<open>moduleId\<close> refers to (a module can be sold as a standalone
  course).  Dates are milliseconds since the epoch.  The table is subject to \<open>@id\<close> on
  \<open>id\<close> and to \<open>@@unique([userId, moduleId])\<close>; the database refuses a write that
  would break either with the error code \<open>P2002\<close>, and a write to a missing row with
  \<open>P2025\<close>.
\<close>

datatype PaymentPlan = THREE_MONTH | SIX_MONTH | ONE_YEAR | SINGLE_MODULE

record UserCourseEnrollment =
  uce_id :: string
  userId :: string
  moduleId :: string
  enrollmentDate :: int
  expiryDate :: int
  isActive :: bool
  paymentPlan :: PaymentPlan

definition unique_conflict :: "UserCourseEnrollment list \<Rightarrow> UserCourseEnrollment \<Rightarrow> bool" where
  "unique_conflict rows r \<longleftrightarrow>
     (\<exists>x\<in>set rows. uce_id x = uce_id r \<or> (userId x = userId r \<and> moduleId x = moduleId r))"

definition enrollment_create ::
  "UserCourseEnrollment list \<Rightarrow> UserCourseEnrollment \<Rightarrow> JsError + UserCourseEnrollment list" where
  "enrollment_create rows r =
     (if unique_conflict rows r
      then Inl (PrismaClientKnownRequestError ''P2002'' ''Unique constraint failed''
                  (Some ''userId,moduleId''))
      else Inr (rows @ [r]))"

text \<open>An update may change any column of the row, its key columns included.\<close>

definition enrollment_update ::
  "UserCourseEnrollment list \<Rightarrow> string \<Rightarrow> (UserCourseEnrollment \<Rightarrow> UserCourseEnrollment)
     \<Rightarrow> JsError + UserCourseEnrollment list" where
  "enrollment_update rows ident f =
     (case find (\<lambda>x. uce_id x = ident) rows of
        None \<Rightarrow> Inl (PrismaClientKnownRequestError ''P2025'' ''Record to update not found'' None)
      | Some x \<Rightarrow>
          if unique_conflict (filter (\<lambda>y. uce_id y \<noteq> ident) rows) (f x)
          then Inl (PrismaClientKnownRequestError ''P2002'' ''Unique constraint failed''
                      (Some ''userId,moduleId''))
          else Inr (map (\<lambda>y. if uce_id y = ident then f x else y) rows))"

definition enrollment_delete ::
  "UserCourseEnrollment list \<Rightarrow> string \<Rightarrow> JsError + UserCourseEnrollment list" where
  "enrollment_delete rows ident =
     (case find (\<lambda>x. uce_id x = ident) rows of
        None \<Rightarrow> Inl (PrismaClientKnownRequestError ''P2025'' ''Record to delete does not exist'' None)
      | Some x \<Rightarrow> Inr (filter (\<lambda>y. uce_id y \<noteq> ident) rows))"

inductive enrollments_reachable :: "UserCourseEnrollment list \<Rightarrow> bool" where
  empty: "enrollments_reachable []"
| created: "enrollments_reachable rows \<Longrightarrow> enrollment_create rows r = Inr rows' \<Longrightarrow>
     enrollments_reachable rows'"
| updated: "enrollments_reachable rows \<Longrightarrow> enrollment_update rows ident f = Inr rows' \<Longrightarrow>
     enrollments_reachable rows'"
| deleted: "enrollments_reachable rows \<Longrightarrow> enrollment_delete rows ident = Inr rows' \<Longrightarrow>
     enrollments_reachable rows'"

text \<open>Two rows at different positions of the table are active enrollments of one user
  in one course.\<close>

definition two_active_enrollments :: "UserCourseEnrollment list \<Rightarrow> nat \<Rightarrow> nat \<Rightarrow> bool" where
  "two_active_enrollments rows i j \<longleftrightarrow>
     i < length rows \<and> j < length rows \<and> i \<noteq> j \<and> isActive (rows ! i) \<and> isActive (rows ! j)
     \<and> userId (rows ! i) = userId (rows ! j) \<and> moduleId (rows ! i) = moduleId (rows ! j)"

definition example_enrollment :: "string \<Rightarrow> string \<Rightarrow> string \<Rightarrow> UserCourseEnrollment" where
  "example_enrollment ident user course =
     \<lparr>uce_id = ident, userId = user, moduleId = course, enrollmentDate = 0,
      expiryDate = 7776000000, isActive = True, paymentPlan = THREE_MONTH\<rparr>"


section \<open>Module unlocking\<close>

text \<open>
  The module service reads an enrollment through its \<open>courseId\<close> and the modules of
  that course, each with a status, a position and an unlock delay in days.  The members
  of \<open>ModuleStatus\<close> other than \<open>DRAFT\<close> and \<open>ACTIVE\<close> are not named by the service.
\<close>

datatype ModuleStatus = DRAFT | ACTIVE | OtherStatus string

record Module =
  mod_id :: string
  mod_courseId :: string
  durationInDays :: int
  mod_status :: ModuleStatus
  mod_order :: int
  mod_isDeleted :: bool

record Enrollment =
  enr_userId :: string
  enr_courseId :: string
  enr_enrollmentDate :: int
  enr_expiryDate :: int
  enr_isActive :: bool

record CourseDb =
  enrollments :: "Enrollment list"
  modules :: "Module list"

text \<open>Milliseconds in a calendar day.\<close>

definition DAY_MS :: int where
  "DAY_MS = 24 * 60 * 60 * 1000"

text \<open>The query of \<open>getModulesToUnlock\<close>: the enrollments with \<open>isActive: true\<close>.\<close>

definition active_enrollments :: "CourseDb \<Rightarrow> Enrollment list" where
  "active_enrollments db = filter enr_isActive (enrollments db)"

text \<open>The included relation \<open>course.modules\<close>: the modules of the course that are not
  soft-deleted and have the status \<open>ACTIVE\<close>, in ascending \<open>order\<close>.\<close>

definition course_modules :: "CourseDb \<Rightarrow> string \<Rightarrow> Module list" where
  "course_modules db courseId =
     sort_key mod_order
       (filter (\<lambda>m. mod_courseId m = courseId \<and> \<not> mod_isDeleted m \<and> mod_status m = ACTIVE)
          (modules db))"

record UnlockEntry =
  ue_module :: Module
  unlockedAt :: int
  isUnlocked :: bool

text \<open>
  Modelled from the spec: the body of the loop of \<open>getModulesToUnlock\<close> over the
  enrollments, which the source file does not contain.  By the specification of the
  unlock evaluator, a module's \<open>unlockedAt\<close> is the enrollment date plus
  \<open>durationInDays\<close> calendar days, \<open>isUnlocked\<close> is \<open>now \<ge> unlockedAt\<close>, a module
  that is not \<open>ACTIVE\<close> is never unlocked, and every module is locked when the
  enrollment is inactive or its expiry date has passed.
\<close>

definition computeUnlockedModules :: "int \<Rightarrow> Enrollment \<Rightarrow> Module list \<Rightarrow> UnlockEntry list" where
  "computeUnlockedModules now e ms =
     map (\<lambda>m. \<lparr>ue_module = m,
                unlockedAt = enr_enrollmentDate e + durationInDays m * DAY_MS,
                isUnlocked =
                  (enr_isActive e \<and> \<not> now > enr_expiryDate e \<and> mod_status m = ACTIVE
                   \<and> now \<ge> enr_enrollmentDate e + durationInDays m * DAY_MS)\<rparr>)
       (sort_key mod_order ms)"

text \<open>\<open>getModulesToUnlock\<close>: for each enrollment of the query, the modules of its
  course that the evaluator reports unlocked.\<close>

definition getModulesToUnlock :: "CourseDb \<Rightarrow> int \<Rightarrow> (Enrollment \<times> Module) list" where
  "getModulesToUnlock db now =
     concat (map (\<lambda>e. map (\<lambda>u. (e, ue_module u))
                         (filter isUnlocked
                            (computeUnlockedModules now e (course_modules db (enr_courseId e)))))
               (active_enrollments db))"

definition example_module :: "string \<Rightarrow> int \<Rightarrow> ModuleStatus \<Rightarrow> Module" where
  "example_module ident days st =
     \<lparr>mod_id = ident, mod_courseId = ''c1'', durationInDays = days, mod_status = st,
      mod_order = 1, mod_isDeleted = False\<rparr>"

definition example_learner :: "bool \<Rightarrow> int \<Rightarrow> Enrollment" where
  "example_learner active expiry =
     \<lparr>enr_userId = ''u1'', enr_courseId = ''c1'', enr_enrollmentDate = 0,
      enr_expiryDate = expiry, enr_isActive = active\<rparr>"

definition course_db :: "Enrollment \<Rightarrow> Module \<Rightarrow> CourseDb" where
  "course_db e m = \<lparr>enrollments = [e], modules = [m]\<rparr>"


section \<open>Example quizzes\<close>

definition example_question :: "string \<Rightarrow> string \<Rightarrow> int \<Rightarrow> nat \<Rightarrow> QuizQuestion" where
  "example_question ident quizId correct pts =
     \<lparr>qq_id = ident, qq_quizId = quizId, question = ''Which one?'',
      options = [''first'', ''second'', ''third''], correctOptionIndex = correct,
      explanation = None, points = pts\<rparr>"

definition example_quiz :: "string \<Rightarrow> int \<Rightarrow> Quiz" where
  "example_quiz ident threshold =
     \<lparr>quiz_id = ident, quiz_title = ''Quiz'', quiz_moduleId = ''m1'',
      passingScore = threshold, isDeleted = False\<rparr>"

text \<open>Two questions worth 5 points each, passing score 50.\<close>

definition db_two_questions :: Db where
  "db_two_questions =
     \<lparr>quizzes = [example_quiz ''quiz1'' 50],
      quizQuestions = [example_question ''q1'' ''quiz1'' 0 5, example_question ''q2'' ''quiz1'' 1 5],
      quizAttempts = []\<rparr>"

definition answers_first_correct :: "AnswerInput list" where
  "answers_first_correct =
     [\<lparr>questionId = ''q1'', selectedOptionIndex = 0\<rparr>,
      \<lparr>questionId = ''q2'', selectedOptionIndex = 0\<rparr>]"

text \<open>Four questions, and a submission that answers three of them.\<close>

definition db_four_questions :: Db where
  "db_four_questions =
     \<lparr>quizzes = [example_quiz ''quiz2'' 50],
      quizQuestions =
        [example_question ''q1'' ''quiz2'' 0 1, example_question ''q2'' ''quiz2'' 1 1,
         example_question ''q3'' ''quiz2'' 2 1, example_question ''q4'' ''quiz2'' 0 1],
      quizAttempts = []\<rparr>"

definition answers_three :: "AnswerInput list" where
  "answers_three =
     [\<lparr>questionId = ''q1'', selectedOptionIndex = 0\<rparr>,
      \<lparr>questionId = ''q2'', selectedOptionIndex = 1\<rparr>,
      \<lparr>questionId = ''q3'', selectedOptionIndex = 2\<rparr>]"

text \<open>Two questions worth 23 and 17 points; the submission has the first one right.\<close>

definition quiz_forty_points :: QuizWithQuestions where
  "quiz_forty_points =
     \<lparr>quiz_id = ''quiz3'', quiz_title = ''Quiz'', quiz_moduleId = ''m1'', passingScore = 58,
      isDeleted = False,
      questions = [example_question ''q1'' ''quiz3'' 0 23, example_question ''q2'' ''quiz3'' 1 17]\<rparr>"


text \<open>A quiz without questions yet, the same quiz after a question with three options
  and correct option 0 was created, and two updates of that question: one that sends
  two options only, one that sends the index 2 only.\<close>

definition db_no_questions :: Db where
  "db_no_questions = \<lparr>quizzes = [example_quiz ''quiz1'' 50], quizQuestions = [], quizAttempts = []\<rparr>"

definition three_options :: "int \<Rightarrow> CreateQuestionData" where
  "three_options correct =
     \<lparr>c_question = ''Which one?'', c_options = [''first'', ''second'', ''third''],
      c_correctOptionIndex = correct, c_explanation = None, c_points = 5\<rparr>"

definition db_one_question :: Db where
  "db_one_question =
     \<lparr>quizzes = [example_quiz ''quiz1'' 50],
      quizQuestions = [example_question ''q1'' ''quiz1'' 0 5], quizAttempts = []\<rparr>"

definition only_options :: "string list \<Rightarrow> UpdateQuestionData" where
  "only_options opts =
     \<lparr>u_question = None, u_options = Some opts, u_correctOptionIndex = None,
      u_explanation = None, u_points = None\<rparr>"

definition only_index :: "int \<Rightarrow> UpdateQuestionData" where
  "only_index i =
     \<lparr>u_question = None, u_options = None, u_correctOptionIndex = Some i,
      u_explanation = None, u_points = None\<rparr>"

text \<open>The question as it is stored after both updates.\<close>

definition question_after_both :: QuizQuestion where
  "question_after_both =
     \<lparr>qq_id = ''q1'', qq_quizId = ''quiz1'', question = ''Which one?'',
      options = [''yes'', ''no''], correctOptionIndex = 2,
      explanation = None, points = 5\<rparr>"

definition db_after_both :: Db where
  "db_after_both =
     \<lparr>quizzes = [example_quiz ''quiz1'' 50],
      quizQuestions = [question_after_both], quizAttempts = []\<rparr>"

text \<open>Two answers for the quiz of two questions, one of them for an id the quiz does
  not have.\<close>

definition answers_unknown_id :: "AnswerInput list" where
  "answers_unknown_id =
     [\<lparr>questionId = ''q1'', selectedOptionIndex = 0\<rparr>,
      \<lparr>questionId = ''zz'', selectedOptionIndex = 0\<rparr>]"

text \<open>The tables of the two-question quiz after an earlier attempt.\<close>

definition db_two_questions_later :: Db where
  "db_two_questions_later =
     db_two_questions\<lparr>quizAttempts :=
       [\<lparr>att_userId = ''u0'', att_quizId = ''quiz1'', score = 0, passed = False, answers = []\<rparr>]\<rparr>"


section \<open>Properties of the number model\<close>

lemma quotient_of_pos:
  assumes "0 < x" "quotient_of x = (p, q)" shows "0 < p \<and> 0 < q"
proof -
  have q: "0 < q" using quotient_of_denom_pos[OF assms(2)] .
  have "x = of_int p / of_int q" using quotient_of_div[OF assms(2)] .
  with assms(1) q have "0 < (of_int p :: rat)" by (simp add: zero_less_divide_iff)
  then show ?thesis using q by simp
qed

lemma scale53_range:
  assumes "0 < x"
  shows "2 ^ 52 \<le> x * 2 powi scale53 x \<and> x * 2 powi scale53 x < 2 ^ 53"
proof -
  obtain p q where pq: "quotient_of x = (p, q)" by (cases "quotient_of x")
  have pos: "0 < p" "0 < q" using quotient_of_pos[OF assms pq] by auto
  have x: "x = of_int p / of_int q" using quotient_of_div[OF pq] .
  define bp where "bp = nat (bitlen p - 1)"
  define bq where "bq = nat (bitlen q - 1)"
  have b1: "1 \<le> bitlen p" "1 \<le> bitlen q"
    using pos bitlen_eq_zero_iff[of p] bitlen_eq_zero_iff[of q] bitlen_nonneg[of p] bitlen_nonneg[of q]
    by linarith+
  have bl: "bitlen p = int bp + 1" "bitlen q = int bq + 1"
    using b1 by (simp_all add: bp_def bq_def)
  have nb: "nat (bitlen p) = Suc bp" "nat (bitlen q) = Suc bq"
    using bl by simp_all
  have ip: "2 ^ bp \<le> p" "p < 2 * 2 ^ bp"
    using bitlen_bounds[OF pos(1)] by (simp_all add: nb bp_def)
  have iq: "2 ^ bq \<le> q" "q < 2 * 2 ^ bq"
    using bitlen_bounds[OF pos(2)] by (simp_all add: nb bq_def)
  define P :: rat where "P = of_int p"
  define Q :: rat where "Q = of_int q"
  define A :: rat where "A = 2 ^ bp"
  define B :: rat where "B = 2 ^ bq"
  have rp: "A \<le> P" "P < 2 * A"
    using ip unfolding P_def A_def by (metis of_int_le_iff of_int_numeral of_int_power, metis of_int_less_iff of_int_mult of_int_numeral of_int_power)
  have rq: "B \<le> Q" "Q < 2 * B"
    using iq unfolding Q_def B_def by (metis of_int_le_iff of_int_numeral of_int_power, metis of_int_less_iff of_int_mult of_int_numeral of_int_power)
  have AB: "0 < A" "0 < B" by (simp_all add: A_def B_def)
  have PQ: "0 < P" "0 < Q" using pos by (simp_all add: P_def Q_def)
  define k0 where "k0 = 53 - (bitlen p - bitlen q)"
  have k0: "k0 = 53 + int bq - int bp" by (simp add: k0_def bl)
  have pw: "(2::rat) powi k0 = 2 ^ 53 * B / A"
    unfolding k0 A_def B_def by (simp add: power_int_diff power_int_add)
  define y where "y = x * 2 powi k0"
  have y: "y = P * (2 ^ 53 * B) / (Q * A)"
    unfolding y_def pw x P_def Q_def by simp
  have "Q * A < 2 * B * P"
  proof -
    have "Q * A < (2 * B) * A" using rq(2) AB by simp
    also have "\<dots> \<le> (2 * B) * P" using rp(1) AB by simp
    finally show ?thesis .
  qed
  then have "2 ^ 52 * (Q * A) < P * (2 ^ 53 * B)" by (simp add: ac_simps)
  then have lo: "2 ^ 52 < y" unfolding y using PQ AB by (simp add: pos_less_divide_eq)
  have "P * B < 2 * A * Q"
  proof -
    have "P * B < (2 * A) * B" using rp(2) AB by simp
    also have "\<dots> \<le> (2 * A) * Q" using rq(1) AB by simp
    finally show ?thesis .
  qed
  then have "P * (2 ^ 53 * B) < 2 ^ 54 * (Q * A)" by (simp add: ac_simps)
  then have hi: "y < 2 ^ 54" unfolding y using PQ AB by (simp add: pos_divide_less_eq)
  have half: "x * 2 powi (k0 - 1) = y / 2"
    unfolding y_def by (simp add: power_int_diff)
  have sc: "scale53 x = (if y < 2 ^ 53 then k0 else k0 - 1)"
    unfolding scale53_def pq y_def k0_def by (simp add: Let_def)
  show ?thesis
  proof (cases "y < 2 ^ 53")
    case True
    then show ?thesis using lo sc by (simp add: y_def)
  next
    case False
    then have "scale53 x = k0 - 1" using sc by simp
    then show ?thesis using False hi half by simp
  qed
qed


lemma round_even_le:
  assumes "y \<le> of_int n" shows "round_even y \<le> n"
proof -
  have f: "\<lfloor>y\<rfloor> \<le> n" using assms by (simp add: floor_le_iff) 
  show ?thesis
  proof (cases "y = of_int \<lfloor>y\<rfloor>")
    case True
    then have "y - of_int \<lfloor>y\<rfloor> = 0" by simp
    then have "round_even y = \<lfloor>y\<rfloor>" by (simp add: round_even_def Let_def)
    then show ?thesis using f by simp
  next
    case False
    then have "of_int \<lfloor>y\<rfloor> < y" using of_int_floor_le[of y] by (auto simp: less_le)
    then have "of_int \<lfloor>y\<rfloor> < (of_int n :: rat)" using assms by simp
    then have "\<lfloor>y\<rfloor> < n" by simp
    moreover have "round_even y \<le> \<lfloor>y\<rfloor> + 1" by (simp add: round_even_def Let_def)
    ultimately show ?thesis by simp
  qed
qed

lemma round_even_nonneg:
  assumes "0 \<le> y" shows "0 \<le> round_even y"
proof -
  have "0 \<le> \<lfloor>y\<rfloor>" using assms by simp
  moreover have "\<lfloor>y\<rfloor> \<le> round_even y" by (simp add: round_even_def Let_def)
  ultimately show ?thesis by (rule order_trans)
qed

lemma fl_nonneg:
  assumes "0 \<le> x" shows "0 \<le> fl x"
proof (cases "x = 0")
  case True
  then show ?thesis by (simp add: fl_def)
next
  case False
  with assms have x: "0 < x" by simp
  have "0 \<le> round_even (x * 2 powi scale53 x)"
    by (rule round_even_nonneg) (use x in simp)
  then show ?thesis using x by (simp add: fl_def)
qed

lemma fl_le_int:
  assumes x: "0 < x" and le: "x \<le> of_int n" and n: "n \<le> 2 ^ 52"
  shows "fl x \<le> of_int n"
proof -
  define k where "k = scale53 x"
  have lo: "2 ^ 52 \<le> x * 2 powi k" using scale53_range[OF x] by (simp add: k_def)
  have k0: "0 \<le> k"
  proof (rule ccontr)
    assume "\<not> 0 \<le> k"
    then have "k < 0" by simp
    then have "(2::rat) powi k < 2 powi 0" by (intro power_int_strict_increasing) simp_all
    then have "(2::rat) powi k < 1" by simp
    then have "x * 2 powi k < x * 1" using x by (intro mult_strict_left_mono) simp_all
    also have "\<dots> \<le> of_int n" using le by simp
    also have "\<dots> \<le> 2 ^ 52" using n by (metis of_int_le_iff of_int_numeral of_int_power)
    finally show False using lo by simp
  qed
  define m where "m = nat k"
  have pk: "(2::rat) powi k = 2 ^ m" using k0 by (simp add: m_def power_int_def)
  have pmk: "(2::rat) powi (- k) = 1 / 2 ^ m" using k0 by (simp add: pk power_int_minus divide_simps)
  have "x * 2 ^ m \<le> of_int n * 2 ^ m" using le by simp
  also have "\<dots> = of_int (n * 2 ^ m)" by simp
  finally have "round_even (x * 2 ^ m) \<le> n * 2 ^ m" by (rule round_even_le)
  then have "(of_int (round_even (x * 2 ^ m)) :: rat) \<le> of_int (n * 2 ^ m)"
    by (simp only: of_int_le_iff)
  then have "(of_int (round_even (x * 2 ^ m)) :: rat) \<le> of_int n * 2 ^ m" by simp
  then have "(of_int (round_even (x * 2 ^ m)) :: rat) / 2 ^ m \<le> of_int n"
    by (simp add: pos_divide_le_eq)
  moreover have "fl x = of_int (round_even (x * 2 ^ m)) / 2 ^ m"
    using x by (simp add: fl_def k_def[symmetric] pk pmk)
  ultimately show ?thesis by simp
qed


section \<open>Properties of the grader\<close>

lemma score_loop_sums:
  "score_loop qs as t e =
     (t + sum_list (map points qs), e + sum_list (map points (filter (answered_correctly as) qs)))"
  by (induction qs arbitrary: t e) (auto simp: answered_correctly_def split: option.splits)

lemma calculateQuizScore_eq:
  "calculateQuizScore quiz as =
     (if totalPoints_of quiz > 0
      then Math_round (js_mul (js_div (of_nat (earnedPoints_of quiz as)) (of_nat (totalPoints_of quiz))) 100)
      else 0)"
  unfolding calculateQuizScore_def score_loop_sums totalPoints_of_def earnedPoints_of_def
  by (simp only: prod.case add_0)

lemma earned_le_total: "earnedPoints_of quiz as \<le> totalPoints_of quiz"
  unfolding earnedPoints_of_def totalPoints_of_def
  by (induction "questions quiz" arbitrary: quiz) (auto simp: sum_list_filter_le_nat)

lemma percent_range:
  assumes "0 < t" "e \<le> t"
  shows "0 \<le> Math_round (js_mul (js_div (of_nat e) (of_nat t)) 100)
       \<and> Math_round (js_mul (js_div (of_nat e) (of_nat t)) 100) \<le> 100"
proof -
  define z where "z = js_div (of_nat e) (of_nat t)"
  define w where "w = js_mul z 100"
  have q: "0 \<le> (of_nat e / of_nat t :: rat)" "(of_nat e / of_nat t :: rat) \<le> 1"
    using assms by simp_all
  have z0: "0 \<le> z" unfolding z_def js_div_def by (rule fl_nonneg) (rule q(1))
  have z1: "z \<le> 1"
  proof (cases "e = 0")
    case True
    then show ?thesis by (simp add: z_def js_div_def fl_def)
  next
    case False
    then have "0 < (of_nat e / of_nat t :: rat)" using assms by simp
    then have "fl (of_nat e / of_nat t) \<le> of_int 1"
      by (rule fl_le_int) (use q in simp_all)
    then show ?thesis by (simp add: z_def js_div_def)
  qed
  have w0: "0 \<le> w" unfolding w_def js_mul_def by (rule fl_nonneg) (use z0 in simp)
  have w1: "w \<le> 100"
  proof (cases "z = 0")
    case True
    then show ?thesis by (simp add: w_def js_mul_def fl_def)
  next
    case False
    then have "0 < z * 100" using z0 by simp
    then have "fl (z * 100) \<le> of_int 100"
      by (rule fl_le_int) (use z1 in simp_all)
    then show ?thesis by (simp add: w_def js_mul_def)
  qed
  have "0 \<le> Math_round w" using w0 by (simp add: Math_round_def)
  moreover have "Math_round w \<le> 100"
  proof -
    have "w + 1 / 2 < of_int 101" using w1 by simp
    then have "\<lfloor>w + 1 / 2\<rfloor> < 101" by (simp only: floor_less_iff)
    then show ?thesis by (simp add: Math_round_def)
  qed
  ultimately show ?thesis by (simp add: w_def z_def)
qed

text \<open>
  Claim C1 (grading arithmetic).  The grader sums the points as the claim says, and a quiz
  without points scores 0, but the score is not always the round-half-up of
  \<open>100 * earnedPoints / totalPoints\<close>.  With 23 of 40 points the exact percentage is
  57.5, which rounds half up to 58; the grader first rounds the quotient 23/40 to a
  binary64 value just below 0.575, the product with 100 is 57.49999999999999, and
  \<open>Math.round\<close> returns 57.
\<close>

theorem calculateQuizScore_half_percent_lost:
  "calculateQuizScore quiz_forty_points answers_first_correct = 57
   \<and> earnedPoints_of quiz_forty_points answers_first_correct = 23
   \<and> totalPoints_of quiz_forty_points = 40
   \<and> round_half_up_percent 23 40 = 58"
  by code_simp


section \<open>Properties of a submission\<close>

lemma sublist_join:
  "x \<in> set xs \<Longrightarrow> sublist x (join sep xs)"
proof (induction sep xs rule: join.induct)
  case (1 sep)
  then show ?case by simp
next
  case (2 sep y)
  then show ?case by simp
next
  case (3 sep y z zs)
  show ?case
  proof (cases "x = y")
    case True
    then show ?thesis by simp
  next
    case False
    then have "sublist x (join sep (z # zs))" using 3 by simp
    then have "sublist x ((y @ sep) @ join sep (z # zs))"
      by (metis sublist_append)
    then show ?thesis by simp
  qed
qed

lemma submit_length_mismatch:
  "getQuizById db quizId True = Some quiz \<Longrightarrow> length as \<noteq> length (questions quiz) \<Longrightarrow>
   submitQuizAttempt db quizId uid as =
     (Inl (ApiError ''All questions must be answered'' 400 Null), db)"
  by (auto simp add: submitQuizAttempt_def Let_def)

lemma submit_invalid_ids:
  "getQuizById db quizId True = Some quiz \<Longrightarrow> length as = length (questions quiz) \<Longrightarrow>
   \<exists>a\<in>set as. questionId a \<notin> qq_id ` set (questions quiz) \<Longrightarrow>
   submitQuizAttempt db quizId uid as =
     (Inl (ApiError (''Invalid question IDs: '' @
        join '', '' (filter (\<lambda>i. i \<notin> qq_id ` set (questions quiz)) (map questionId as)))
        400 Null), db)"
  by (auto simp add: submitQuizAttempt_def Let_def filter_empty_conv)

lemma submit_error_state:
  "submitQuizAttempt db quizId uid as = (Inl e, db') \<Longrightarrow> db' = db"
  by (auto simp add: submitQuizAttempt_def Let_def split: option.splits if_splits)

lemma submit_ok:
  "submitQuizAttempt db quizId uid as = (Inr attempt, db') \<Longrightarrow>
   getQuizById db quizId True = Some quiz \<Longrightarrow>
   score attempt = calculateQuizScore quiz as
   \<and> (passed attempt \<longleftrightarrow> passingScore quiz \<le> score attempt)
   \<and> db' = db\<lparr>quizAttempts := quizAttempts db @ [attempt]\<rparr>"
  by (auto simp add: submitQuizAttempt_def Let_def split: option.splits if_splits)

lemma submit_ok_loaded:
  "submitQuizAttempt db quizId uid as = (Inr attempt, db') \<Longrightarrow>
   \<exists>quiz. getQuizById db quizId True = Some quiz"
  by (auto simp add: submitQuizAttempt_def split: option.splits)

text \<open>
  A submission of three answers to a quiz of four questions is refused with status 400,
  but the message is the fixed text of the count check and does not contain the id of
  the question that was left out.
\<close>

theorem submitQuizAttempt_count_message_names_no_id:
  "map_option (\<lambda>q. map qq_id (questions q)) (getQuizById db_four_questions ''quiz2'' True)
     = Some [''q1'', ''q2'', ''q3'', ''q4'']
   \<and> map questionId answers_three = [''q1'', ''q2'', ''q3'']
   \<and> submitQuizAttempt db_four_questions ''quiz2'' ''u1'' answers_three
     = (Inl (ApiError ''All questions must be answered'' 400 Null), db_four_questions)
   \<and> \<not> sublist ''q4'' ''All questions must be answered''"
  by code_simp

text \<open>
  Claim C2 (incomplete submissions), as the code has it.  For a quiz that exists: a
  submission whose number of answers differs from the number of questions is refused
  with status 400 and the fixed message \<open>All questions must be answered\<close>; a
  submission with the right number of answers of which some carry an id that is not a
  question of the quiz is refused with status 400 and a message that lists exactly those
  ids, so that each of them occurs in it.  In both cases nothing is graded and the tables
  are as before.
\<close>

theorem submitQuizAttempt_rejects_mismatch:
  assumes "getQuizById db quizId True = Some quiz"
  shows "(length as \<noteq> length (questions quiz) \<longrightarrow>
            submitQuizAttempt db quizId uid as =
              (Inl (ApiError ''All questions must be answered'' 400 Null), db))
       \<and> (length as = length (questions quiz)
            \<and> (\<exists>a\<in>set as. questionId a \<notin> qq_id ` set (questions quiz)) \<longrightarrow>
            submitQuizAttempt db quizId uid as =
              (Inl (ApiError (''Invalid question IDs: '' @
                 join '', '' (filter (\<lambda>i. i \<notin> qq_id ` set (questions quiz)) (map questionId as)))
                 400 Null), db)
            \<and> (\<forall>a\<in>set as. questionId a \<notin> qq_id ` set (questions quiz) \<longrightarrow>
                  sublist (questionId a)
                    (''Invalid question IDs: '' @
                       join '', '' (filter (\<lambda>i. i \<notin> qq_id ` set (questions quiz))
                                     (map questionId as)))))"
proof (intro conjI impI ballI)
  assume "length as \<noteq> length (questions quiz)"
  then show "submitQuizAttempt db quizId uid as =
      (Inl (ApiError ''All questions must be answered'' 400 Null), db)"
    using assms by (rule submit_length_mismatch[rotated])
next
  assume "length as = length (questions quiz)
      \<and> (\<exists>a\<in>set as. questionId a \<notin> qq_id ` set (questions quiz))"
  then show "submitQuizAttempt db quizId uid as =
      (Inl (ApiError (''Invalid question IDs: '' @
         join '', '' (filter (\<lambda>i. i \<notin> qq_id ` set (questions quiz)) (map questionId as)))
         400 Null), db)"
    using assms submit_invalid_ids by blast
next
  fix a
  assume "a \<in> set as" "questionId a \<notin> qq_id ` set (questions quiz)"
  then have "questionId a
      \<in> set (filter (\<lambda>i. i \<notin> qq_id ` set (questions quiz)) (map questionId as))"
    by simp
  then have "sublist (questionId a)
      (join '', '' (filter (\<lambda>i. i \<notin> qq_id ` set (questions quiz)) (map questionId as)))"
    by (rule sublist_join)
  then show "sublist (questionId a)
      (''Invalid question IDs: '' @
         join '', '' (filter (\<lambda>i. i \<notin> qq_id ` set (questions quiz)) (map questionId as)))"
    by (metis sublist_append)
qed


theorem submitQuizAttempt_rejects_mismatch_witness:
  "getQuizById db_four_questions ''quiz2'' True \<noteq> None
   \<and> length answers_three \<noteq> 4
   \<and> submitQuizAttempt db_four_questions ''quiz2'' ''u1'' answers_three =
       (Inl (ApiError ''All questions must be answered'' 400 Null), db_four_questions)
   \<and> getQuizById db_two_questions ''quiz1'' True \<noteq> None
   \<and> submitQuizAttempt db_two_questions ''quiz1'' ''u1'' answers_unknown_id =
       (Inl (ApiError ''Invalid question IDs: zz'' 400 Null), db_two_questions)
   \<and> sublist ''zz'' ''Invalid question IDs: zz''"
proof -
  have "map_option (\<lambda>q. length (questions q)) (getQuizById db_four_questions ''quiz2'' True)
      = Some 4"
    by code_simp
  then obtain quiz4 where q4: "getQuizById db_four_questions ''quiz2'' True = Some quiz4"
    and l4: "length (questions quiz4) = 4"
    by auto
  have n: "length answers_three \<noteq> length (questions quiz4)"
    by (simp add: l4 answers_three_def)
  have a: "submitQuizAttempt db_four_questions ''quiz2'' ''u1'' answers_three =
       (Inl (ApiError ''All questions must be answered'' 400 Null), db_four_questions)"
    using submitQuizAttempt_rejects_mismatch[OF q4, of answers_three "''u1''"] n by blast
  have "map_option (\<lambda>q. map qq_id (questions q)) (getQuizById db_two_questions ''quiz1'' True)
      = Some [''q1'', ''q2'']"
    by code_simp
  then obtain quiz2 where q2: "getQuizById db_two_questions ''quiz1'' True = Some quiz2"
    and ids: "map qq_id (questions quiz2) = [''q1'', ''q2'']"
    by auto
  have l2: "length answers_unknown_id = length (questions quiz2)"
    using arg_cong[OF ids, of length] by (simp add: answers_unknown_id_def)
  have s2: "qq_id ` set (questions quiz2) = {''q1'', ''q2''}"
    using arg_cong[OF ids, of set] by simp
  have ex: "\<exists>a\<in>set answers_unknown_id. questionId a \<notin> qq_id ` set (questions quiz2)"
    unfolding s2 by (simp add: answers_unknown_id_def)
  note m = submitQuizAttempt_rejects_mismatch[OF q2, of answers_unknown_id "''u1''",
      THEN conjunct2, rule_format, OF conjI[OF l2 ex]]
  have b: "submitQuizAttempt db_two_questions ''quiz1'' ''u1'' answers_unknown_id =
       (Inl (ApiError ''Invalid question IDs: zz'' 400 Null), db_two_questions)"
    using m unfolding s2 by (simp add: answers_unknown_id_def)
  have sl: "sublist ''zz'' ''Invalid question IDs: zz''"
    using m unfolding s2 by (simp add: answers_unknown_id_def)
  have d: "length answers_three \<noteq> 4" by (simp add: answers_three_def)
  show ?thesis using a b sl d q2 q4 by simp
qed


text \<open>
  Claim C7 (no partial persistence).  Whenever \<open>submitQuizAttempt\<close> ends in an error,
  which covers the quiz that is not found, the wrong number of answers and the unknown
  question ids, the tables are exactly as before the call: no attempt and no answer
  rows were written.
\<close>

theorem submitQuizAttempt_error_persists_nothing:
  "submitQuizAttempt db quizId uid as = (Inl err, db') \<Longrightarrow>
   db' = db \<and> quizAttempts db' = quizAttempts db"
  using submit_error_state by blast

theorem submitQuizAttempt_error_persists_nothing_witness:
  "submitQuizAttempt db_two_questions ''quiz9'' ''u1'' answers_first_correct =
     (Inl (ApiError ''Quiz not found'' 404 Null), db_two_questions)
   \<and> quizAttempts db_two_questions = []"
proof -
  obtain r d where s: "submitQuizAttempt db_two_questions ''quiz9'' ''u1'' answers_first_correct
      = (r, d)" by (cases "submitQuizAttempt db_two_questions ''quiz9'' ''u1'' answers_first_correct")
  have "fst (submitQuizAttempt db_two_questions ''quiz9'' ''u1'' answers_first_correct)
      = Inl (ApiError ''Quiz not found'' 404 Null)"
    by code_simp
  then have r: "r = Inl (ApiError ''Quiz not found'' 404 Null)" using s by simp
  have "d = db_two_questions \<and> quizAttempts d = quizAttempts db_two_questions"
    using submitQuizAttempt_error_persists_nothing[of db_two_questions "''quiz9''" "''u1''"
        answers_first_correct "ApiError ''Quiz not found'' 404 Null" d] s r by simp
  then show ?thesis using s r by (simp add: db_two_questions_def)
qed


text \<open>
  Claim C3 (pass threshold).  The attempt that a successful submission creates has
  \<open>passed\<close> set exactly when its score is at least the passing score of the quiz.  For
  the quiz of two questions worth 5 points each with passing score 50, the submission
  with only the first question right is stored with score 50 and \<open>passed = true\<close>.
\<close>

theorem passed_iff_score_reaches_passingScore:
  "(submitQuizAttempt db quizId uid as = (Inr attempt, db')
      \<and> getQuizById db quizId True = Some quiz
      \<longrightarrow> (passed attempt \<longleftrightarrow> score attempt \<ge> passingScore quiz))
   \<and> fst (submitQuizAttempt db_two_questions ''quiz1'' ''u1'' answers_first_correct) =
       Inr \<lparr>att_userId = ''u1'', att_quizId = ''quiz1'', score = 50, passed = True,
            answers = [\<lparr>qa_questionId = ''q1'', qa_selectedOptionIndex = 0, isCorrect = True\<rparr>,
                       \<lparr>qa_questionId = ''q2'', qa_selectedOptionIndex = 0, isCorrect = False\<rparr>]\<rparr>"
proof
  show "submitQuizAttempt db quizId uid as = (Inr attempt, db')
      \<and> getQuizById db quizId True = Some quiz
      \<longrightarrow> (passed attempt \<longleftrightarrow> score attempt \<ge> passingScore quiz)"
    using submit_ok by blast
  show "fst (submitQuizAttempt db_two_questions ''quiz1'' ''u1'' answers_first_correct) =
       Inr \<lparr>att_userId = ''u1'', att_quizId = ''quiz1'', score = 50, passed = True,
            answers = [\<lparr>qa_questionId = ''q1'', qa_selectedOptionIndex = 0, isCorrect = True\<rparr>,
                       \<lparr>qa_questionId = ''q2'', qa_selectedOptionIndex = 0, isCorrect = False\<rparr>]\<rparr>"
    by code_simp
qed

theorem passed_iff_score_reaches_passingScore_witness:
  "\<exists>attempt db' quiz.
     submitQuizAttempt db_two_questions ''quiz1'' ''u2'' answers_first_correct = (Inr attempt, db')
     \<and> getQuizById db_two_questions ''quiz1'' True = Some quiz
     \<and> passingScore quiz = 50 \<and> score attempt = 50 \<and> passed attempt"
proof -
  obtain r d where s: "submitQuizAttempt db_two_questions ''quiz1'' ''u2'' answers_first_correct
      = (r, d)" by (cases "submitQuizAttempt db_two_questions ''quiz1'' ''u2'' answers_first_correct")
  have f: "fst (submitQuizAttempt db_two_questions ''quiz1'' ''u2'' answers_first_correct) =
       Inr \<lparr>att_userId = ''u2'', att_quizId = ''quiz1'', score = 50, passed = True,
            answers = [\<lparr>qa_questionId = ''q1'', qa_selectedOptionIndex = 0, isCorrect = True\<rparr>,
                       \<lparr>qa_questionId = ''q2'', qa_selectedOptionIndex = 0, isCorrect = False\<rparr>]\<rparr>"
    by code_simp
  obtain a where a: "r = Inr a" and sc: "score a = 50" using f s by simp
  have "map_option passingScore (getQuizById db_two_questions ''quiz1'' True) = Some 50"
    by code_simp
  then obtain quiz where q: "getQuizById db_two_questions ''quiz1'' True = Some quiz"
    and ps: "passingScore quiz = 50"
    by auto
  have "passed a \<longleftrightarrow> score a \<ge> passingScore quiz"
    using passed_iff_score_reaches_passingScore[of db_two_questions "''quiz1''" "''u2''"
        answers_first_correct a d quiz] s a q by simp
  then have p: "passed a" using sc ps by simp
  show ?thesis using s a q ps sc p by blast
qed


text \<open>
  Claim C6 (range and determinism of the score).  For a quiz whose points sum to more
  than 0 the score lies between 0 and 100, for every list of answers.  The score is a
  function of the questions and the answers alone: two quizzes with the same questions
  score the same answers alike, and two successful submissions of the same answers, made
  by any users against any two states of the tables in which the quiz loads alike, store
  the same score.
\<close>

theorem score_in_range_and_deterministic:
  "(0 < totalPoints_of quiz \<longrightarrow>
      0 \<le> calculateQuizScore quiz as \<and> calculateQuizScore quiz as \<le> 100)
   \<and> (questions quiz = questions quiz' \<longrightarrow>
        calculateQuizScore quiz as = calculateQuizScore quiz' as)
   \<and> (getQuizById db1 quizId True = getQuizById db2 quizId True
        \<and> submitQuizAttempt db1 quizId user1 as = (Inr attempt1, db1')
        \<and> submitQuizAttempt db2 quizId user2 as = (Inr attempt2, db2')
        \<longrightarrow> score attempt1 = score attempt2)"
proof (intro conjI impI)
  assume t: "0 < totalPoints_of quiz"
  have "0 \<le> Math_round (js_mul (js_div (of_nat (earnedPoints_of quiz as))
            (of_nat (totalPoints_of quiz))) 100)
      \<and> Math_round (js_mul (js_div (of_nat (earnedPoints_of quiz as))
            (of_nat (totalPoints_of quiz))) 100) \<le> 100"
    using t earned_le_total by (rule percent_range)
  then show "0 \<le> calculateQuizScore quiz as" "calculateQuizScore quiz as \<le> 100"
    using t by (simp_all add: calculateQuizScore_eq)
next
  assume "questions quiz = questions quiz'"
  then show "calculateQuizScore quiz as = calculateQuizScore quiz' as"
    by (simp add: calculateQuizScore_def)
next
  assume a: "getQuizById db1 quizId True = getQuizById db2 quizId True
        \<and> submitQuizAttempt db1 quizId user1 as = (Inr attempt1, db1')
        \<and> submitQuizAttempt db2 quizId user2 as = (Inr attempt2, db2')"
  then obtain quiz0 where q: "getQuizById db1 quizId True = Some quiz0"
    using submit_ok_loaded by blast
  have "score attempt1 = calculateQuizScore quiz0 as" using a q submit_ok by blast
  moreover have "score attempt2 = calculateQuizScore quiz0 as" using a q submit_ok by metis
  ultimately show "score attempt1 = score attempt2" by simp
qed

theorem score_in_range_and_deterministic_witness:
  "0 < totalPoints_of quiz_forty_points
   \<and> 0 \<le> calculateQuizScore quiz_forty_points answers_first_correct
   \<and> calculateQuizScore quiz_forty_points answers_first_correct \<le> 100
   \<and> calculateQuizScore (quiz_forty_points\<lparr>passingScore := 10\<rparr>) answers_first_correct
       = calculateQuizScore quiz_forty_points answers_first_correct
   \<and> getQuizById db_two_questions ''quiz1'' True = getQuizById db_two_questions_later ''quiz1'' True
   \<and> (\<exists>a1 a2 d1 d2.
        submitQuizAttempt db_two_questions ''quiz1'' ''u1'' answers_first_correct = (Inr a1, d1)
        \<and> submitQuizAttempt db_two_questions_later ''quiz1'' ''u2'' answers_first_correct = (Inr a2, d2)
        \<and> score a1 = score a2)"
proof -
  have t: "0 < totalPoints_of quiz_forty_points" by code_simp
  have q: "questions (quiz_forty_points\<lparr>passingScore := 10\<rparr>) = questions quiz_forty_points"
    by simp
  have g: "getQuizById db_two_questions ''quiz1'' True
      = getQuizById db_two_questions_later ''quiz1'' True"
    by code_simp
  obtain r1 d1 where s1: "submitQuizAttempt db_two_questions ''quiz1'' ''u1'' answers_first_correct
      = (r1, d1)" by (cases "submitQuizAttempt db_two_questions ''quiz1'' ''u1'' answers_first_correct")
  obtain r2 d2 where s2: "submitQuizAttempt db_two_questions_later ''quiz1'' ''u2'' answers_first_correct
      = (r2, d2)" by (cases "submitQuizAttempt db_two_questions_later ''quiz1'' ''u2'' answers_first_correct")
  have "isl (fst (submitQuizAttempt db_two_questions ''quiz1'' ''u1'' answers_first_correct)) = False"
    by code_simp
  then obtain a1 where a1: "r1 = Inr a1" using s1 by (cases r1) simp_all
  have "isl (fst (submitQuizAttempt db_two_questions_later ''quiz1'' ''u2'' answers_first_correct)) = False"
    by code_simp
  then obtain a2 where a2: "r2 = Inr a2" using s2 by (cases r2) simp_all
  have r: "0 \<le> calculateQuizScore quiz_forty_points answers_first_correct
     \<and> calculateQuizScore quiz_forty_points answers_first_correct \<le> 100"
    using score_in_range_and_deterministic[of quiz_forty_points answers_first_correct
      quiz_forty_points db_two_questions "''quiz1''"
      db_two_questions_later "''u1''" a1 d1 "''u2''" a2 d2] t by blast
  have e: "score a1 = score a2"
    using score_in_range_and_deterministic[of quiz_forty_points answers_first_correct
      quiz_forty_points db_two_questions "''quiz1''"
      db_two_questions_later "''u1''" a1 d1 "''u2''" a2 d2] g s1 s2 a1 a2 by simp
  have d: "calculateQuizScore (quiz_forty_points\<lparr>passingScore := 10\<rparr>) answers_first_correct
       = calculateQuizScore quiz_forty_points answers_first_correct"
    using score_in_range_and_deterministic[of "quiz_forty_points\<lparr>passingScore := 10\<rparr>"
      answers_first_correct quiz_forty_points db_two_questions "''quiz1''"
      db_two_questions_later "''u1''" a1 d1 "''u2''" a2 d2] q by blast
  show ?thesis using t r d g e s1 s2 a1 a2 by blast
qed


section \<open>Properties of the question table\<close>

text \<open>One request at a time: an operation whose check and write meet the same table
  rejects an index outside the options and keeps the bound of every row.\<close>

lemma set_replace_first:
  "set (replace_first P y xs) \<subseteq> insert y (set xs)"
  by (induction xs) auto

lemma find_Some_in: "find P xs = Some x \<Longrightarrow> x \<in> set xs"
  by (auto simp: find_Some_iff)

lemma create_in_bounds:
  assumes "createQuizQuestion db newId quizId data = (r, db')"
    and "\<forall>q\<in>set (quizQuestions db). index_in_bounds q"
  shows "\<forall>q\<in>set (quizQuestions db'). index_in_bounds q"
  using assms
  by (auto simp: createQuizQuestion_def createQuizQuestion_check_def quizQuestion_create_def
      index_in_bounds_def Let_def split: option.splits if_splits)

lemma update_check_sound:
  assumes "index_in_bounds q" "update_check q data = None"
  shows "index_in_bounds (apply_update q data)"
  using assms
  by (auto simp: update_check_def apply_update_def index_in_bounds_def split: option.splits if_splits)

lemma update_check_complete:
  assumes "index_in_bounds q" "\<not> index_in_bounds (apply_update q data)"
  shows "\<exists>msg. update_check q data = Some msg"
  using assms
  by (auto simp: update_check_def apply_update_def index_in_bounds_def split: option.splits if_splits)

lemma update_in_bounds:
  assumes "updateQuizQuestion db ident data = (r, db')"
    and inv: "\<forall>q\<in>set (quizQuestions db). index_in_bounds q"
  shows "\<forall>q\<in>set (quizQuestions db'). index_in_bounds q"
proof (cases "find (\<lambda>q. qq_id q = ident) (quizQuestions db)")
  case None
  then show ?thesis using assms
    by (simp add: updateQuizQuestion_def updateQuizQuestion_check_def)
next
  case (Some q)
  then have q: "index_in_bounds q" using inv find_Some_in by fast
  show ?thesis
  proof (cases "update_check q data")
    case None
    then have "index_in_bounds (apply_update q data)" using q update_check_sound by blast
    moreover have "quizQuestions db' =
        replace_first (\<lambda>x. qq_id x = ident) (apply_update q data) (quizQuestions db)"
      using assms(1) Some None
      by (auto simp: updateQuizQuestion_def updateQuizQuestion_check_def quizQuestion_update_def)
    ultimately show ?thesis
      using inv set_replace_first[of "\<lambda>x. qq_id x = ident" "apply_update q data" "quizQuestions db"]
      by auto
  next
    case (Some msg)
    then show ?thesis using assms \<open>find _ _ = Some q\<close>
      by (auto simp: updateQuizQuestion_def updateQuizQuestion_check_def)
  qed
qed

lemma delete_in_bounds:
  assumes "deleteQuizQuestion db ident = (r, db')"
    and "\<forall>q\<in>set (quizQuestions db). index_in_bounds q"
  shows "\<forall>q\<in>set (quizQuestions db'). index_in_bounds q"
  using assms
  by (auto simp: deleteQuizQuestion_def deleteQuizQuestion_check_def quizQuestion_delete_def
      split: option.splits)

lemma create_rejects:
  assumes "getQuizById db quizId False = Some quiz"
    and "\<not> (0 \<le> c_correctOptionIndex data \<and> c_correctOptionIndex data < int (length (c_options data)))"
  shows "createQuizQuestion db newId quizId data =
     (Inl (ApiError ''Invalid correctOptionIndex, must be a valid index in the options array'' 400 Null), db)"
  using assms by (auto simp: createQuizQuestion_def createQuizQuestion_check_def)

lemma update_rejects:
  assumes "find (\<lambda>q. qq_id q = ident) (quizQuestions db) = Some q"
    and "index_in_bounds q" "\<not> index_in_bounds (apply_update q data)"
  shows "\<exists>msg. updateQuizQuestion db ident data = (Inl (ApiError msg 400 Null), db)"
  using assms update_check_complete[OF assms(2,3)]
  by (auto simp: updateQuizQuestion_def updateQuizQuestion_check_def)

text \<open>
  Claim C10 (bound on the stored correct option).  Run as one request with no other
  write in between, either operation rejects an index outside the options and keeps the
  bound, as the lemmas above say.  The bound does not hold for every stored question,
  though.  \<open>updateQuizQuestion\<close> checks the row it has read and afterwards writes the
  submitted columns only, with no transaction around the two steps.  For a stored
  question with three options and correct option 0, an update that sends two options
  alone and an update that sends the index 2 alone both pass their checks against that
  row; when both writes have reached the table, the question is stored with two options
  and correct option 2.
\<close>

theorem overlapping_updates_break_index_bound:
  "reachable db_one_question []
   \<and> quizQuestions db_one_question = [example_question ''q1'' ''quiz1'' 0 5]
   \<and> index_in_bounds (example_question ''q1'' ''quiz1'' 0 5)
   \<and> updateQuizQuestion_check db_one_question ''q1'' (only_options [''yes'', ''no'']) = None
   \<and> updateQuizQuestion_check db_one_question ''q1'' (only_index 2) = None
   \<and> reachable db_after_both []
   \<and> quizQuestions db_after_both = [question_after_both]
   \<and> correctOptionIndex question_after_both = 2
   \<and> length (options question_after_both) = 2
   \<and> \<not> index_in_bounds question_after_both"
proof -
  let ?c = "CreateWrite ''q1'' ''quiz1'' (three_options 0)"
  let ?a = "UpdateWrite ''q1'' (only_options [''yes'', ''no''])"
  let ?b = "UpdateWrite ''q1'' (only_index 2)"
  have r0: "reachable db_no_questions []"
    by (rule reachable.init) (simp add: db_no_questions_def)
  have "passes_check db_no_questions ?c" by code_simp
  then have r1: "reachable db_no_questions [?c]"
    using r0 by (rule reachable.checked[rotated])
  have w1: "apply_write db_no_questions ?c = db_one_question" by code_simp
  have r2: "reachable db_one_question []"
    using reachable.written[OF r1, of ?c] w1 by simp
  have ca: "updateQuizQuestion_check db_one_question ''q1'' (only_options [''yes'', ''no'']) = None"
    by code_simp
  have cb: "updateQuizQuestion_check db_one_question ''q1'' (only_index 2) = None"
    by code_simp
  have r3: "reachable db_one_question [?a]"
    using reachable.checked[OF r2, of ?a] ca by simp
  have r4: "reachable db_one_question [?b, ?a]"
    using reachable.checked[OF r3, of ?b] cb by simp
  have ne: "?b \<noteq> ?a" by (simp add: only_options_def only_index_def)
  have r5: "reachable (apply_write db_one_question ?a) [?b]"
    using reachable.written[OF r4, of ?a] ne by simp
  have w2: "apply_write (apply_write db_one_question ?a) ?b = db_after_both" by code_simp
  have r6: "reachable db_after_both []"
    using reachable.written[OF r5, of ?b] w2 by simp
  have q0: "quizQuestions db_one_question = [example_question ''q1'' ''quiz1'' 0 5]"
    by (simp add: db_one_question_def)
  have i0: "index_in_bounds (example_question ''q1'' ''quiz1'' 0 5)"
    by (simp add: index_in_bounds_def example_question_def)
  have q2: "quizQuestions db_after_both = [question_after_both]"
    by (simp add: db_after_both_def)
  have i2: "correctOptionIndex question_after_both = 2"
    "length (options question_after_both) = 2" "\<not> index_in_bounds question_after_both"
    by (simp_all add: index_in_bounds_def question_after_both_def)
  show ?thesis using r2 q0 i0 ca cb r6 q2 i2 by simp
qed


section \<open>Properties of the error middleware\<close>








section \<open>Properties of the enrollment table\<close>

lemma distinct_map_replace:
  assumes "distinct (map uce_id rows)" "distinct (map g rows)"
    and "\<forall>y\<in>set rows. uce_id y \<noteq> ident \<longrightarrow> g y \<noteq> g x'"
  shows "distinct (map g (map (\<lambda>y. if uce_id y = ident then x' else y) rows))"
  using assms
proof (induction rows)
  case Nil
  then show ?case by simp
next
  case (Cons y ys)
  show ?case
  proof (cases "uce_id y = ident")
    case True
    have "uce_id y \<notin> uce_id ` set ys" using Cons.prems(1) by simp
    then have others: "\<forall>z\<in>set ys. uce_id z \<noteq> ident"
      unfolding True[symmetric] by (metis imageI)
    then have same: "map (\<lambda>y. if uce_id y = ident then x' else y) ys = ys"
      by (simp add: map_idI)
    have "g x' \<notin> g ` set ys" using Cons.prems(3) others by force
    then show ?thesis using True same Cons.prems(2) by simp
  next
    case False
    define h where "h = (\<lambda>y. if uce_id y = ident then x' else y)"
    have ih: "distinct (map g (map h ys))"
      using Cons unfolding h_def by simp
    have hy: "h y = y" using False by (simp add: h_def)
    have n1: "g y \<noteq> g x'" using False Cons.prems(3) by simp
    have n2: "\<forall>z\<in>set ys. g y \<noteq> g z" using Cons.prems(2) by force
    have "\<forall>z\<in>set ys. g y \<noteq> g (h z)" using n1 n2 by (simp add: h_def)
    then have "g y \<notin> set (map g (map h ys))" by force
    then have "distinct (map g (map h (y # ys)))" using ih hy by simp
    then show ?thesis unfolding h_def .
  qed
qed

lemma create_keeps_keys:
  assumes "distinct (map uce_id rows) \<and> distinct (map (\<lambda>r. (userId r, moduleId r)) rows)"
    and "enrollment_create rows r = Inr rows'"
  shows "distinct (map uce_id rows') \<and> distinct (map (\<lambda>r. (userId r, moduleId r)) rows')"
  using assms
  by (fastforce simp: enrollment_create_def unique_conflict_def split: if_splits)

lemma update_keeps_keys:
  assumes ok: "distinct (map uce_id rows) \<and> distinct (map (\<lambda>r. (userId r, moduleId r)) rows)"
    and upd: "enrollment_update rows ident f = Inr rows'"
  shows "distinct (map uce_id rows') \<and> distinct (map (\<lambda>r. (userId r, moduleId r)) rows')"
proof -
  from upd obtain x where x: "find (\<lambda>x. uce_id x = ident) rows = Some x"
    and nc: "\<not> unique_conflict (filter (\<lambda>y. uce_id y \<noteq> ident) rows) (f x)"
    and r: "rows' = map (\<lambda>y. if uce_id y = ident then f x else y) rows"
    by (auto simp: enrollment_update_def split: option.splits if_splits)
  have a: "\<forall>y\<in>set rows. uce_id y \<noteq> ident \<longrightarrow> uce_id y \<noteq> uce_id (f x)"
    using nc by (auto simp: unique_conflict_def)
  have b: "\<forall>y\<in>set rows. uce_id y \<noteq> ident \<longrightarrow>
      (\<lambda>r. (userId r, moduleId r)) y \<noteq> (\<lambda>r. (userId r, moduleId r)) (f x)"
    using nc by (auto simp: unique_conflict_def)
  have d1: "distinct (map uce_id rows)"
    and d2: "distinct (map (\<lambda>r. (userId r, moduleId r)) rows)"
    using ok by simp_all
  show ?thesis
    unfolding r
    using distinct_map_replace[OF d1 d1 a] distinct_map_replace[OF d1 d2 b] by simp
qed

lemma delete_keeps_keys:
  assumes "distinct (map uce_id rows) \<and> distinct (map (\<lambda>r. (userId r, moduleId r)) rows)"
    and "enrollment_delete rows ident = Inr rows'"
  shows "distinct (map uce_id rows') \<and> distinct (map (\<lambda>r. (userId r, moduleId r)) rows')"
  using assms
  by (auto simp: enrollment_delete_def distinct_map_filter split: option.splits)

lemma reachable_keys:
  "enrollments_reachable rows \<Longrightarrow>
   distinct (map uce_id rows) \<and> distinct (map (\<lambda>r. (userId r, moduleId r)) rows)"
proof (induction rule: enrollments_reachable.induct)
  case empty
  then show ?case by simp
next
  case (created rows r rows')
  show ?case using create_keeps_keys[OF created.IH created.hyps(2)] .
next
  case (updated rows ident f rows')
  show ?case using update_keeps_keys[OF updated.IH updated.hyps(2)] .
next
  case (deleted rows ident rows')
  show ?case using delete_keeps_keys[OF deleted.IH deleted.hyps(2)] .
qed

text \<open>
  Claim C8 (one active enrollment per user and course).  In every state of the
  enrollment table that creating, updating and deleting rows under the constraint
  \<open>@@unique([userId, moduleId])\<close> can produce, no two different rows are active
  enrollments of the same user in the same course.  (The constraint forbids two rows for
  the pair whether they are active or not.)
\<close>

theorem one_active_enrollment_per_user_course:
  "enrollments_reachable rows \<Longrightarrow> \<not> two_active_enrollments rows i j"
proof
  assume r: "enrollments_reachable rows" and t: "two_active_enrollments rows i j"
  have d: "distinct (map (\<lambda>r. (userId r, moduleId r)) rows)"
    using reachable_keys[OF r] by simp
  from t have ij: "i < length rows" "j < length rows" "i \<noteq> j"
    and k: "(\<lambda>r. (userId r, moduleId r)) (rows ! i) = (\<lambda>r. (userId r, moduleId r)) (rows ! j)"
    by (simp_all add: two_active_enrollments_def)
  from d ij have "map (\<lambda>r. (userId r, moduleId r)) rows ! i
      \<noteq> map (\<lambda>r. (userId r, moduleId r)) rows ! j"
    by (simp add: nth_eq_iff_index_eq del: nth_map)
  then show False using k ij by simp
qed

theorem one_active_enrollment_per_user_course_witness:
  "enrollments_reachable
     [example_enrollment ''e1'' ''u1'' ''c1'', example_enrollment ''e2'' ''u1'' ''c2'']
   \<and> \<not> two_active_enrollments
         [example_enrollment ''e1'' ''u1'' ''c1'', example_enrollment ''e2'' ''u1'' ''c2''] 0 1
   \<and> isl (enrollment_create
         [example_enrollment ''e1'' ''u1'' ''c1'', example_enrollment ''e2'' ''u1'' ''c2'']
         (example_enrollment ''e3'' ''u1'' ''c1''))"
proof -
  have c1: "enrollment_create [] (example_enrollment ''e1'' ''u1'' ''c1'')
      = Inr [example_enrollment ''e1'' ''u1'' ''c1'']"
    by (simp add: enrollment_create_def unique_conflict_def)
  have c2: "enrollment_create [example_enrollment ''e1'' ''u1'' ''c1'']
        (example_enrollment ''e2'' ''u1'' ''c2'')
      = Inr [example_enrollment ''e1'' ''u1'' ''c1'', example_enrollment ''e2'' ''u1'' ''c2'']"
    by (simp add: enrollment_create_def unique_conflict_def example_enrollment_def)
  have r: "enrollments_reachable
     [example_enrollment ''e1'' ''u1'' ''c1'', example_enrollment ''e2'' ''u1'' ''c2'']"
    using enrollments_reachable.created[OF enrollments_reachable.created[OF
        enrollments_reachable.empty c1] c2] .
  have x: "isl (enrollment_create
         [example_enrollment ''e1'' ''u1'' ''c1'', example_enrollment ''e2'' ''u1'' ''c2'']
         (example_enrollment ''e3'' ''u1'' ''c1''))"
    by (simp add: enrollment_create_def unique_conflict_def example_enrollment_def)
  show ?thesis
    using r x one_active_enrollment_per_user_course[OF r, of 0 1] by simp
qed


section \<open>Properties of module unlocking\<close>

lemma unlocked_modules:
  "map ue_module (filter isUnlocked (computeUnlockedModules now e ms)) =
     filter (\<lambda>m. enr_isActive e \<and> \<not> now > enr_expiryDate e \<and> mod_status m = ACTIVE
                 \<and> now \<ge> enr_enrollmentDate e + durationInDays m * DAY_MS)
       (sort_key mod_order ms)"
  by (simp add: computeUnlockedModules_def filter_map o_def)

lemma in_getModulesToUnlock_raw:
  "(e, m) \<in> set (getModulesToUnlock db now) \<longleftrightarrow>
     e \<in> set (active_enrollments db)
     \<and> m \<in> set (map ue_module (filter isUnlocked
            (computeUnlockedModules now e (course_modules db (enr_courseId e)))))"
  unfolding getModulesToUnlock_def by (simp add: image_iff)

lemma in_getModulesToUnlock:
  "(e, m) \<in> set (getModulesToUnlock db now) \<longleftrightarrow>
     e \<in> set (enrollments db) \<and> enr_isActive e \<and> m \<in> set (modules db)
     \<and> mod_courseId m = enr_courseId e \<and> \<not> mod_isDeleted m \<and> mod_status m = ACTIVE
     \<and> \<not> now > enr_expiryDate e
     \<and> now \<ge> enr_enrollmentDate e + durationInDays m * DAY_MS"
  unfolding in_getModulesToUnlock_raw unlocked_modules
  by (auto simp: course_modules_def active_enrollments_def)

lemma entry_unlocked:
  "u \<in> set (computeUnlockedModules now e ms) \<Longrightarrow>
   isUnlocked u \<longleftrightarrow>
     enr_isActive e \<and> \<not> now > enr_expiryDate e \<and> mod_status (ue_module u) = ACTIVE
     \<and> now \<ge> enr_enrollmentDate e + durationInDays (ue_module u) * DAY_MS"
  by (auto simp: computeUnlockedModules_def)

text \<open>
  Claim C4 (unlock date).  For an active enrollment that has not expired and a module of
  its course that is not soft-deleted: if the module is \<open>ACTIVE\<close>, it is reported
  unlocked exactly when \<open>now\<close> is at least the enrollment date plus \<open>durationInDays\<close>
  days; if it is \<open>DRAFT\<close> or has any other status, it is reported unlocked for no
  enrollment and at no time, and the evaluator marks it locked.  With
  \<open>durationInDays = 7\<close> and enrollment at time 0 the module is locked after 6 days and
  one millisecond before the end of the seventh, and unlocked after 7 days.
\<close>

theorem module_unlocks_at_duration:
  assumes "e \<in> set (enrollments db)" "enr_isActive e" "now \<le> enr_expiryDate e"
    and "m \<in> set (modules db)" "mod_courseId m = enr_courseId e" "\<not> mod_isDeleted m"
  shows "(mod_status m = ACTIVE \<longrightarrow>
            ((e, m) \<in> set (getModulesToUnlock db now)
              \<longleftrightarrow> now \<ge> enr_enrollmentDate e + durationInDays m * DAY_MS))
       \<and> (mod_status m \<noteq> ACTIVE \<longrightarrow>
            (\<forall>e' t. (e', m) \<notin> set (getModulesToUnlock db t))
            \<and> (\<forall>e' t ms. \<forall>u\<in>set (computeUnlockedModules t e' ms).
                  ue_module u = m \<longrightarrow> \<not> isUnlocked u))
       \<and> (example_learner True (90 * DAY_MS), example_module ''m1'' 7 ACTIVE)
            \<notin> set (getModulesToUnlock
                 (course_db (example_learner True (90 * DAY_MS)) (example_module ''m1'' 7 ACTIVE))
                 (6 * DAY_MS))
       \<and> (example_learner True (90 * DAY_MS), example_module ''m1'' 7 ACTIVE)
            \<notin> set (getModulesToUnlock
                 (course_db (example_learner True (90 * DAY_MS)) (example_module ''m1'' 7 ACTIVE))
                 (7 * DAY_MS - 1))
       \<and> (example_learner True (90 * DAY_MS), example_module ''m1'' 7 ACTIVE)
            \<in> set (getModulesToUnlock
                 (course_db (example_learner True (90 * DAY_MS)) (example_module ''m1'' 7 ACTIVE))
                 (7 * DAY_MS))"
proof (intro conjI impI allI ballI)
  assume "mod_status m = ACTIVE"
  then show "(e, m) \<in> set (getModulesToUnlock db now)
      \<longleftrightarrow> now \<ge> enr_enrollmentDate e + durationInDays m * DAY_MS"
    using assms by (auto simp: in_getModulesToUnlock)
next
  fix e' t
  assume "mod_status m \<noteq> ACTIVE"
  then show "(e', m) \<notin> set (getModulesToUnlock db t)"
    by (simp add: in_getModulesToUnlock)
next
  fix e' t ms u
  assume "mod_status m \<noteq> ACTIVE" "u \<in> set (computeUnlockedModules t e' ms)" "ue_module u = m"
  then show "\<not> isUnlocked u" by (simp add: entry_unlocked)
next
  show "(example_learner True (90 * DAY_MS), example_module ''m1'' 7 ACTIVE)
      \<notin> set (getModulesToUnlock
           (course_db (example_learner True (90 * DAY_MS)) (example_module ''m1'' 7 ACTIVE))
           (6 * DAY_MS))"
    by (simp add: in_getModulesToUnlock course_db_def example_learner_def example_module_def
        DAY_MS_def)
  show "(example_learner True (90 * DAY_MS), example_module ''m1'' 7 ACTIVE)
      \<notin> set (getModulesToUnlock
           (course_db (example_learner True (90 * DAY_MS)) (example_module ''m1'' 7 ACTIVE))
           (7 * DAY_MS - 1))"
    by (simp add: in_getModulesToUnlock course_db_def example_learner_def example_module_def
        DAY_MS_def)
  show "(example_learner True (90 * DAY_MS), example_module ''m1'' 7 ACTIVE)
      \<in> set (getModulesToUnlock
           (course_db (example_learner True (90 * DAY_MS)) (example_module ''m1'' 7 ACTIVE))
           (7 * DAY_MS))"
    by (simp add: in_getModulesToUnlock course_db_def example_learner_def example_module_def
        DAY_MS_def)
qed

theorem module_unlocks_at_duration_witness:
  "getModulesToUnlock
     (course_db (example_learner True (90 * DAY_MS)) (example_module ''m2'' 30 ACTIVE))
     (30 * DAY_MS)
     = [(example_learner True (90 * DAY_MS), example_module ''m2'' 30 ACTIVE)]
   \<and> (example_learner True (90 * DAY_MS), example_module ''m2'' 30 ACTIVE)
        \<notin> set (getModulesToUnlock
             (course_db (example_learner True (90 * DAY_MS)) (example_module ''m2'' 30 ACTIVE))
             (29 * DAY_MS))
   \<and> getModulesToUnlock
       (course_db (example_learner True (90 * DAY_MS)) (example_module ''m3'' 7 DRAFT))
       (30 * DAY_MS) = []"
proof -
  let ?e = "example_learner True (90 * DAY_MS)"
  let ?m = "example_module ''m2'' 30 ACTIVE"
  let ?d = "example_module ''m3'' 7 DRAFT"
  have h: "?e \<in> set (enrollments (course_db ?e ?m))" "enr_isActive ?e"
    "29 * DAY_MS \<le> enr_expiryDate ?e" "?m \<in> set (modules (course_db ?e ?m))"
    "mod_courseId ?m = enr_courseId ?e" "\<not> mod_isDeleted ?m" "mod_status ?m = ACTIVE"
    by (simp_all add: course_db_def example_learner_def example_module_def DAY_MS_def)
  have a: "(?e, ?m) \<notin> set (getModulesToUnlock (course_db ?e ?m) (29 * DAY_MS))"
    using module_unlocks_at_duration[OF h(1-6)] h(7)
    by (simp add: example_learner_def example_module_def DAY_MS_def)
  have b: "getModulesToUnlock (course_db ?e ?m) (30 * DAY_MS) = [(?e, ?m)]"
    by code_simp
  have c: "getModulesToUnlock (course_db ?e ?d) (30 * DAY_MS) = []"
    by code_simp
  show ?thesis using a b c by simp
qed

text \<open>
  Claim C5 (inactive or expired enrollment).  For an enrollment that is not active, or
  whose expiry date lies before \<open>now\<close>, no module is reported unlocked, whatever its
  unlock date, and the evaluator marks every module of every list locked.
\<close>

theorem inactive_or_expired_enrollment_locks_all:
  assumes "\<not> enr_isActive e \<or> now > enr_expiryDate e"
  shows "(\<forall>m. (e, m) \<notin> set (getModulesToUnlock db now))
       \<and> (\<forall>u\<in>set (computeUnlockedModules now e ms). \<not> isUnlocked u)"
  using assms by (auto simp: in_getModulesToUnlock entry_unlocked)

theorem inactive_or_expired_enrollment_locks_all_witness:
  "(\<not> enr_isActive (example_learner False (90 * DAY_MS)))
   \<and> getModulesToUnlock
       (course_db (example_learner False (90 * DAY_MS)) (example_module ''m1'' 7 ACTIVE))
       (30 * DAY_MS) = []
   \<and> 91 * DAY_MS > enr_expiryDate (example_learner True (90 * DAY_MS))
   \<and> (example_learner True (90 * DAY_MS), example_module ''m1'' 7 ACTIVE)
        \<notin> set (getModulesToUnlock
             (course_db (example_learner True (90 * DAY_MS)) (example_module ''m1'' 7 ACTIVE))
             (91 * DAY_MS))
   \<and> map isUnlocked (computeUnlockedModules (91 * DAY_MS) (example_learner True (90 * DAY_MS))
        [example_module ''m1'' 7 ACTIVE]) = [False]"
proof -
  have x: "91 * DAY_MS > enr_expiryDate (example_learner True (90 * DAY_MS))"
    by (simp add: example_learner_def DAY_MS_def)
  have i: "\<not> enr_isActive (example_learner False (90 * DAY_MS))"
    by (simp add: example_learner_def)
  have a: "(example_learner True (90 * DAY_MS), example_module ''m1'' 7 ACTIVE)
        \<notin> set (getModulesToUnlock
             (course_db (example_learner True (90 * DAY_MS)) (example_module ''m1'' 7 ACTIVE))
             (91 * DAY_MS))"
    using inactive_or_expired_enrollment_locks_all[of "example_learner True (90 * DAY_MS)"
        "91 * DAY_MS"] x by blast
  have b: "getModulesToUnlock
       (course_db (example_learner False (90 * DAY_MS)) (example_module ''m1'' 7 ACTIVE))
       (30 * DAY_MS) = []"
    by code_simp
  have c: "map isUnlocked (computeUnlockedModules (91 * DAY_MS)
        (example_learner True (90 * DAY_MS)) [example_module ''m1'' 7 ACTIVE]) = [False]"
    by code_simp
  show ?thesis using x i a b c by simp
qed


end
